theory Spec2Isabelle
  imports Complex_Main
begin

section \<open>Data model of the Music Assistant media player platform\<close>

text \<open>
  The development embeds \<^verbatim>\<open>custom_components/mass/media_player.py\<close>.
  Python objects become records, \<^verbatim>\<open>None\<close>-able attributes become options,
  a Python float is the real number it denotes, and a raised exception is a value of
  \<open>py_error\<close>.  Attribute assignments made before an
  exception is raised persist in Python, so a method that may raise returns the
  entity as it stands together with the pending exception, if any.
\<close>

datatype py_error = AttributeError | KeyError | ValueError

text \<open>
  Modelled from the spec: the engine's \<^verbatim>\<open>PlayerState\<close> enumeration is imported from
  the engine's library; the specification lists its members as idle, playing and paused.
\<close>

datatype PlayerState = IDLE | PLAYING | PAUSED

text \<open>The platform's state constants imported from \<^verbatim>\<open>homeassistant.const\<close>.\<close>

datatype ha_state = STATE_IDLE | STATE_OFF | STATE_PAUSED | STATE_PLAYING

text \<open>
  Modelled from the spec: the engine's \<^verbatim>\<open>RepeatMode\<close> enumeration (off / one / all);
  \<open>RepeatMode_value\<close> is the member's \<^verbatim>\<open>.value\<close> and \<open>RepeatMode_of\<close> the
  constructor call \<^verbatim>\<open>RepeatMode(s)\<close>, which raises \<^verbatim>\<open>ValueError\<close> on any
  other string.
\<close>

datatype RepeatMode = RepeatMode_OFF | RepeatMode_ONE | RepeatMode_ALL

fun RepeatMode_value :: "RepeatMode \<Rightarrow> string" where
  "RepeatMode_value RepeatMode_OFF = ''off''"
| "RepeatMode_value RepeatMode_ONE = ''one''"
| "RepeatMode_value RepeatMode_ALL = ''all''"

definition RepeatMode_of :: "string \<Rightarrow> py_error + RepeatMode" where
  "RepeatMode_of s =
     (if s = ''off'' then Inr RepeatMode_OFF
      else if s = ''one'' then Inr RepeatMode_ONE
      else if s = ''all'' then Inr RepeatMode_ALL
      else Inl ValueError)"

text \<open>The engine's enqueue options, the values of \<^verbatim>\<open>QUEUE_OPTION_MAP\<close>.\<close>

datatype QueueOption = ADD | NEXT | PLAY | REPLACE

text \<open>
  \<^verbatim>\<open>MediaType\<close> is a string enumeration; a media type is kept as the string it
  carries, since \<^verbatim>\<open>_get_item_by_name\<close> receives either a member or a plain string
  and calls \<^verbatim>\<open>.lower()\<close> on it.
\<close>

definition MediaType_TRACK :: string where
  "MediaType_TRACK = ''track''"

record Artist =
  artist_name :: string

record Album =
  album_name :: string
  album_artist :: "Artist option"

record MediaItem =
  name :: string
  uri :: string
  media_type :: string
  version :: "string option"
  artists :: "Artist list"
  album :: "Album option"

record MediaItemImage =
  provider :: string
  path :: string

record QueueItem =
  queue_item_uri :: string
  media_item :: "MediaItem option"
  item_image :: "MediaItemImage option"
  duration :: int

record PlayerQueue =
  queue_id :: string
  shuffle_enabled :: bool
  repeat_mode :: RepeatMode
  queue_elapsed_time :: real
  queue_elapsed_time_last_updated :: real
  current_item :: "QueueItem option"
  items :: "QueueItem list"
  current_index :: "int option"

record Player =
  powered :: bool
  state :: PlayerState
  active_source :: string
  volume_level :: int
  volume_muted :: bool
  elapsed_time :: real
  elapsed_time_last_updated :: real
  current_url :: "string option"
  group_childs :: "string list"

datatype datetime = from_utc_timestamp real

text \<open>
  A float operation returns the exact result rounded to a representable number.  The
  rounding function is a parameter \<open>rnd\<close> of every function that computes with
  floats, so \<^verbatim>\<open>x * y\<close> is \<open>rnd (x * y)\<close>.  \<open>float_rounding\<close> states what
  is used of it: rounding is monotone, and an integer of magnitude up to \<open>2 ^ 53\<close>
  is representable.
\<close>

definition float_rounding :: "(real \<Rightarrow> real) \<Rightarrow> bool" where
  "float_rounding rnd =
     (mono rnd \<and> (\<forall>n::int. \<bar>n\<bar> \<le> 2 ^ 53 \<longrightarrow> rnd (real_of_int n) = real_of_int n))"

text \<open>Python truthiness of an optional string: \<^verbatim>\<open>None\<close> and \<^verbatim>\<open>""\<close> are false.\<close>

fun truthy :: "string option \<Rightarrow> bool" where
  "truthy None = False"
| "truthy (Some s) = (s \<noteq> [])"

subsection \<open>The engine client\<close>

text \<open>
  The client object \<^verbatim>\<open>self.mass\<close> is owned by the engine's library.  Its read
  accessors are parameters of the model: \<open>get_player_queue\<close> returns \<^verbatim>\<open>None\<close> for
  an id that is no queue, \<open>get_item\<close> returns \<open>None\<close> where the library raises
  \<^verbatim>\<open>MediaNotFoundError\<close>, a library listing returns the \<^verbatim>\<open>.items\<close> of its
  result.  Remote calls are taken to answer; transport failures are outside the model.
\<close>

record SearchResults =
  tracks :: "MediaItem list"
  albums :: "MediaItem list"
  playlists :: "MediaItem list"
  search_artists :: "MediaItem list"
  radio :: "MediaItem list"

datatype media_types = MediaType_ALL | MediaTypes "string list"

record MusicAssistantClient =
  get_player_queue :: "string \<Rightarrow> PlayerQueue option"
  get_image_url :: "MediaItemImage \<Rightarrow> string"
  get_item :: "string \<Rightarrow> string \<Rightarrow> string \<Rightarrow> MediaItem option"
  get_library_playlists :: "string \<Rightarrow> MediaItem list"
  get_library_radios :: "string \<Rightarrow> MediaItem list"
  get_library_albums :: "string \<Rightarrow> MediaItem list"
  get_library_tracks :: "string \<Rightarrow> MediaItem list"
  get_library_artists :: "string \<Rightarrow> MediaItem list"
  search :: "string \<Rightarrow> media_types \<Rightarrow> SearchResults"

text \<open>The calls the adapter issues to the engine, named as the client's methods.\<close>

datatype engine_call =
    queue_command_play string
  | queue_command_pause string
  | queue_command_stop string
  | queue_command_next string
  | queue_command_previous string
  | queue_command_seek string int
  | queue_command_shuffle string bool
  | queue_command_repeat string RepeatMode
  | queue_command_clear string
  | player_command_volume_mute string bool
  | player_command_volume_set string int
  | player_command_volume_up string
  | player_command_volume_down string
  | player_command_power string bool
  | play_media string "string list" "QueueOption option" "bool option"

subsection \<open>The entity\<close>

text \<open>
  \<open>player\<close> and \<open>available\<close> are properties of the base entity class, which lives
  in another module; they are fields here.  \<open>prev_time\<close> is \<^verbatim>\<open>_prev_time\<close>.
\<close>

record MassPlayer =
  mass :: MusicAssistantClient
  player_id :: string
  player :: Player
  available :: bool
  attr_state :: "ha_state option"
  attr_app_id :: "string option"
  attr_shuffle :: "bool option"
  attr_repeat :: "string option"
  attr_group_members :: "string list"
  attr_volume_level :: "real option"
  attr_is_volume_muted :: "bool option"
  attr_media_position :: "real option"
  attr_media_position_updated_at :: "datetime option"
  prev_time :: real
  attr_media_image_remotely_accessible :: bool
  attr_media_image_url :: "string option"
  attr_media_artist :: "string option"
  attr_media_album_artist :: "string option"
  attr_media_album_name :: "string option"
  attr_media_title :: "string option"
  attr_media_content_id :: "string option"
  attr_media_duration :: "int option"

text \<open>The integration's domain name, imported from the constants module.\<close>

definition DOMAIN :: string where
  "DOMAIN = ''mass''"

definition STATE_MAPPING :: "(PlayerState \<times> ha_state) list" where
  "STATE_MAPPING =
     [(IDLE, STATE_IDLE), (PLAYING, STATE_PLAYING), (PAUSED, STATE_PAUSED)]"

text \<open>\<^verbatim>\<open>MassPlayer.__init__\<close>: the attributes of a freshly created entity.\<close>

definition MassPlayer_init ::
  "MusicAssistantClient \<Rightarrow> string \<Rightarrow> Player \<Rightarrow> bool \<Rightarrow> MassPlayer" where
  "MassPlayer_init m pid p av =
     \<lparr> mass = m, player_id = pid, player = p, available = av,
       attr_state = None, attr_app_id = None, attr_shuffle = None, attr_repeat = None,
       attr_group_members = [], attr_volume_level = None, attr_is_volume_muted = None,
       attr_media_position = None, attr_media_position_updated_at = None,
       prev_time = 0,
       attr_media_image_remotely_accessible = True, attr_media_image_url = None,
       attr_media_artist = None, attr_media_album_artist = None,
       attr_media_album_name = None, attr_media_title = None,
       attr_media_content_id = None, attr_media_duration = None \<rparr>"

section \<open>State projection\<close>

text \<open>\<^verbatim>\<open>", ".join(xs)\<close>.\<close>

fun join_comma :: "string list \<Rightarrow> string" where
  "join_comma [] = []"
| "join_comma [x] = x"
| "join_comma (x # y # ys) = x @ '', '' @ join_comma (y # ys)"

text \<open>\<^verbatim>\<open>_update_media_image_url\<close>.\<close>

definition update_media_image_url :: "MassPlayer \<Rightarrow> PlayerQueue option \<Rightarrow> MassPlayer" where
  "update_media_image_url self queue =
     (case queue of
        None \<Rightarrow> self\<lparr>attr_media_image_url := None\<rparr>
      | Some q \<Rightarrow>
          (case current_item q of
             None \<Rightarrow> self\<lparr>attr_media_image_url := None\<rparr>
           | Some ci \<Rightarrow>
               (case item_image ci of
                  Some img \<Rightarrow>
                    self\<lparr>attr_media_image_remotely_accessible := (provider img = ''url''),
                         attr_media_image_url := Some (get_image_url (mass self) img)\<rparr>
                | None \<Rightarrow> self\<lparr>attr_media_image_url := None\<rparr>)))"

text \<open>
  Lines 227 to 253 of \<^verbatim>\<open>async_on_update\<close>: the six local variables
  (artist, album artist, album name, title, content id, duration) and their
  assignment to the attributes.
\<close>

type_synonym media_info =
  "string option \<times> string option \<times> string option \<times> string option \<times> string option \<times> int option"

definition current_media_info :: "Player \<Rightarrow> PlayerQueue option \<Rightarrow> media_info" where
  "current_media_info p queue =
     (let dflt = (None, None, None, Some (active_source p), current_url p, None) in
      case queue of
        None \<Rightarrow> dflt
      | Some q \<Rightarrow>
          (case current_item q of
             None \<Rightarrow> dflt
           | Some ci \<Rightarrow>
               (case media_item ci of
                  None \<Rightarrow> dflt
                | Some mi \<Rightarrow>
                    if media_type mi = MediaType_TRACK then
                      (Some (join_comma (map artist_name (artists mi))),
                       (case album mi of
                          None \<Rightarrow> None
                        | Some al \<Rightarrow> map_option artist_name (album_artist al)),
                       map_option album_name (album mi),
                       Some (if truthy (version mi)
                             then name mi @ '' ('' @ the (version mi) @ '')''
                             else name mi),
                       Some (queue_item_uri ci),
                       Some (duration ci))
                    else
                      (None, None, None, Some (name mi), Some (queue_item_uri ci),
                       Some (duration ci)))))"

definition set_media_attributes :: "media_info \<Rightarrow> MassPlayer \<Rightarrow> MassPlayer" where
  "set_media_attributes info self =
     (case info of
        (media_artist, media_album_artist, media_album_name, media_title,
         media_content_id, media_duration) \<Rightarrow>
          self\<lparr>attr_media_artist := media_artist,
               attr_media_album_artist := media_album_artist,
               attr_media_album_name := media_album_name,
               attr_media_title := media_title,
               attr_media_content_id := media_content_id,
               attr_media_duration := media_duration\<rparr>)"

text \<open>Lines 214 to 223: the position and its timestamp, from the queue or the player.\<close>

definition set_media_position :: "Player \<Rightarrow> PlayerQueue option \<Rightarrow> MassPlayer \<Rightarrow> MassPlayer" where
  "set_media_position p queue self =
     (case queue of
        Some q \<Rightarrow>
          self\<lparr>attr_media_position := Some (queue_elapsed_time q),
               attr_media_position_updated_at :=
                 Some (from_utc_timestamp (queue_elapsed_time_last_updated q))\<rparr>
      | None \<Rightarrow>
          self\<lparr>attr_media_position := Some (elapsed_time p),
               attr_media_position_updated_at :=
                 Some (from_utc_timestamp (elapsed_time_last_updated p))\<rparr>)"

text \<open>
  \<^verbatim>\<open>async_on_update\<close>; \<open>set_generic_attributes\<close> is lines 204 to 213, with the
  state already looked up.  Line 205 indexes \<^verbatim>\<open>STATE_MAPPING\<close>, which raises
  \<^verbatim>\<open>KeyError\<close> on a missing key; line 224 reads \<^verbatim>\<open>queue.elapsed_time\<close> with
  no test of \<^verbatim>\<open>queue\<close>, which raises \<^verbatim>\<open>AttributeError\<close> when the queue is
  \<^verbatim>\<open>None\<close>.
\<close>

definition set_generic_attributes ::
  "(real \<Rightarrow> real) \<Rightarrow> ha_state \<Rightarrow> Player \<Rightarrow> PlayerQueue option \<Rightarrow> MassPlayer \<Rightarrow> MassPlayer" where
  "set_generic_attributes rnd s p queue self =
     self\<lparr>attr_state := Some s,
          attr_app_id := Some (case queue of Some q \<Rightarrow> DOMAIN | None \<Rightarrow> active_source p),
          attr_shuffle := map_option shuffle_enabled queue,
          attr_repeat := map_option (\<lambda>q. RepeatMode_value (repeat_mode q)) queue,
          attr_group_members := group_childs p,
          attr_volume_level := Some (rnd (real_of_int (volume_level p) / 100)),
          attr_is_volume_muted := Some (volume_muted p)\<rparr>"

definition async_on_update ::
  "(real \<Rightarrow> real) \<Rightarrow> MassPlayer \<Rightarrow> py_error option \<times> MassPlayer" where
  "async_on_update rnd self =
     (if available self then
        (let p = player self;
             queue = get_player_queue (mass self) (active_source p)
         in (case (if powered p then map_of STATE_MAPPING (state p) else Some STATE_OFF) of
               None \<Rightarrow> (Some KeyError, self)
             | Some s \<Rightarrow>
                 (let self1 =
                        set_media_position p queue (set_generic_attributes rnd s p queue self)
                  in (case queue of
                        None \<Rightarrow> (Some AttributeError, self1)
                      | Some q \<Rightarrow>
                          (None,
                           set_media_attributes (current_media_info p queue)
                             (update_media_image_url
                                (self1\<lparr>prev_time := queue_elapsed_time q\<rparr>) queue))))))
      else (None, self))"

section \<open>Event subscription\<close>




section \<open>Command forwarding\<close>

text \<open>
  \<^verbatim>\<open>int(x)\<close> on a float truncates towards zero.  Each command returns the engine
  call it awaits; \<^verbatim>\<open>if queue := ...\<close> tests the queue object, which is true for
  every queue that is not \<^verbatim>\<open>None\<close>.
\<close>

definition py_int :: "real \<Rightarrow> int" where
  "py_int x = (if 0 \<le> x then \<lfloor>x\<rfloor> else \<lceil>x\<rceil>)"

definition active_queue :: "MassPlayer \<Rightarrow> PlayerQueue option" where
  "active_queue self = get_player_queue (mass self) (active_source (player self))"

definition async_media_play :: "MassPlayer \<Rightarrow> engine_call" where
  "async_media_play self =
     (case active_queue self of
        Some queue \<Rightarrow> queue_command_play (queue_id queue)
      | None \<Rightarrow> queue_command_play (player_id self))"

definition async_media_pause :: "MassPlayer \<Rightarrow> engine_call" where
  "async_media_pause self =
     (case active_queue self of
        Some queue \<Rightarrow> queue_command_pause (queue_id queue)
      | None \<Rightarrow> queue_command_pause (player_id self))"

definition async_media_stop :: "MassPlayer \<Rightarrow> engine_call" where
  "async_media_stop self =
     (case active_queue self of
        Some queue \<Rightarrow> queue_command_stop (queue_id queue)
      | None \<Rightarrow> queue_command_stop (player_id self))"

definition async_media_next_track :: "MassPlayer \<Rightarrow> engine_call" where
  "async_media_next_track self =
     (case active_queue self of
        Some queue \<Rightarrow> queue_command_next (queue_id queue)
      | None \<Rightarrow> queue_command_next (player_id self))"

definition async_media_previous_track :: "MassPlayer \<Rightarrow> engine_call" where
  "async_media_previous_track self =
     (case active_queue self of
        Some queue \<Rightarrow> queue_command_previous (queue_id queue)
      | None \<Rightarrow> queue_command_previous (player_id self))"

definition async_media_seek :: "MassPlayer \<Rightarrow> real \<Rightarrow> engine_call" where
  "async_media_seek self position =
     (let position = py_int position in
      case active_queue self of
        Some queue \<Rightarrow> queue_command_seek (queue_id queue) position
      | None \<Rightarrow> queue_command_seek (player_id self) position)"

definition async_mute_volume :: "MassPlayer \<Rightarrow> bool \<Rightarrow> engine_call" where
  "async_mute_volume self mute = player_command_volume_mute (player_id self) mute"

definition async_set_volume_level ::
  "(real \<Rightarrow> real) \<Rightarrow> MassPlayer \<Rightarrow> real \<Rightarrow> engine_call" where
  "async_set_volume_level rnd self volume =
     (let volume = py_int (rnd (volume * 100)) in
      player_command_volume_set (player_id self) volume)"

definition async_volume_up :: "MassPlayer \<Rightarrow> engine_call" where
  "async_volume_up self = player_command_volume_up (player_id self)"

definition async_volume_down :: "MassPlayer \<Rightarrow> engine_call" where
  "async_volume_down self = player_command_volume_down (player_id self)"

definition async_turn_on :: "MassPlayer \<Rightarrow> engine_call" where
  "async_turn_on self = player_command_power (player_id self) True"

definition async_turn_off :: "MassPlayer \<Rightarrow> engine_call" where
  "async_turn_off self = player_command_power (player_id self) False"

definition async_set_shuffle :: "MassPlayer \<Rightarrow> bool \<Rightarrow> engine_call" where
  "async_set_shuffle self shuffle =
     (case active_queue self of
        Some queue \<Rightarrow> queue_command_shuffle (queue_id queue) shuffle
      | None \<Rightarrow> queue_command_shuffle (player_id self) shuffle)"

text \<open>The argument \<^verbatim>\<open>RepeatMode(repeat)\<close> is evaluated before the call is made.\<close>

definition async_set_repeat :: "MassPlayer \<Rightarrow> string \<Rightarrow> py_error + engine_call" where
  "async_set_repeat self repeat =
     (case active_queue self of
        Some queue \<Rightarrow>
          (case RepeatMode_of repeat of
             Inl e \<Rightarrow> Inl e
           | Inr m \<Rightarrow> Inr (queue_command_repeat (queue_id queue) m))
      | None \<Rightarrow>
          (case RepeatMode_of repeat of
             Inl e \<Rightarrow> Inl e
           | Inr m \<Rightarrow> Inr (queue_command_repeat (player_id self) m)))"

definition async_clear_playlist :: "MassPlayer \<Rightarrow> engine_call" where
  "async_clear_playlist self =
     (case active_queue self of
        Some queue \<Rightarrow> queue_command_clear (queue_id queue)
      | None \<Rightarrow> queue_command_clear (player_id self))"

text \<open>
  The client's method names fall in two families; a call is queue-scoped when its
  method is a \<^verbatim>\<open>queue_command_*\<close> and player-scoped when it is a
  \<^verbatim>\<open>player_command_*\<close>.  \<open>target_id\<close> is the first argument of the call.
\<close>

fun is_player_command :: "engine_call \<Rightarrow> bool" where
  "is_player_command (player_command_volume_mute i b) = True"
| "is_player_command (player_command_volume_set i v) = True"
| "is_player_command (player_command_volume_up i) = True"
| "is_player_command (player_command_volume_down i) = True"
| "is_player_command (player_command_power i b) = True"
| "is_player_command c = False"

fun is_queue_command :: "engine_call \<Rightarrow> bool" where
  "is_queue_command (queue_command_play i) = True"
| "is_queue_command (queue_command_pause i) = True"
| "is_queue_command (queue_command_stop i) = True"
| "is_queue_command (queue_command_next i) = True"
| "is_queue_command (queue_command_previous i) = True"
| "is_queue_command (queue_command_seek i n) = True"
| "is_queue_command (queue_command_shuffle i b) = True"
| "is_queue_command (queue_command_repeat i m) = True"
| "is_queue_command (queue_command_clear i) = True"
| "is_queue_command c = False"

fun target_id :: "engine_call \<Rightarrow> string" where
  "target_id (queue_command_play i) = i"
| "target_id (queue_command_pause i) = i"
| "target_id (queue_command_stop i) = i"
| "target_id (queue_command_next i) = i"
| "target_id (queue_command_previous i) = i"
| "target_id (queue_command_seek i n) = i"
| "target_id (queue_command_shuffle i b) = i"
| "target_id (queue_command_repeat i m) = i"
| "target_id (queue_command_clear i) = i"
| "target_id (player_command_volume_mute i b) = i"
| "target_id (player_command_volume_set i v) = i"
| "target_id (player_command_volume_up i) = i"
| "target_id (player_command_volume_down i) = i"
| "target_id (player_command_power i b) = i"
| "target_id (play_media i ms opt r) = i"

section \<open>Media resolution\<close>

subsection \<open>String operations\<close>

text \<open>
  Strings are lists of 8-bit characters; the Python operations are modelled on the
  ASCII range: \<^verbatim>\<open>lower()\<close> maps A to Z, \<^verbatim>\<open>isnumeric()\<close> accepts the digits
  0 to 9 and rejects the empty string.
\<close>

definition char_lower :: "char \<Rightarrow> char" where
  "char_lower c =
     (case map_of (zip ''ABCDEFGHIJKLMNOPQRSTUVWXYZ'' ''abcdefghijklmnopqrstuvwxyz'') c of
        Some l \<Rightarrow> l
      | None \<Rightarrow> c)"

definition str_lower :: "string \<Rightarrow> string" where
  "str_lower s = map char_lower s"

definition isnumeric :: "string \<Rightarrow> bool" where
  "isnumeric s = (s \<noteq> [] \<and> list_all (\<lambda>c. List.member ''0123456789'' c) s)"

text \<open>\<^verbatim>\<open>s.startswith(p)\<close>.\<close>

fun startswith :: "string \<Rightarrow> string \<Rightarrow> bool" where
  "startswith s [] = True"
| "startswith [] (p # ps) = False"
| "startswith (c # cs) (p # ps) = (c = p \<and> startswith cs ps)"

text \<open>\<^verbatim>\<open>sub in s\<close>.\<close>

fun str_in :: "string \<Rightarrow> string \<Rightarrow> bool" where
  "str_in sub [] = (sub = [])"
| "str_in sub (c # cs) = (startswith (c # cs) sub \<or> str_in sub cs)"

text \<open>
  \<^verbatim>\<open>s.split(sep, 1)\<close> unpacked into two names: the parts before and after the
  leftmost occurrence of \<open>sep\<close>; \<open>None\<close> where there is no occurrence and the
  unpacking would fail.
\<close>

fun split_once :: "string \<Rightarrow> string \<Rightarrow> (string \<times> string) option" where
  "split_once sep [] = (if sep = [] then Some ([], []) else None)"
| "split_once sep (c # cs) =
     (if startswith (c # cs) sep then Some ([], drop (length sep) (c # cs))
      else (case split_once sep cs of
              None \<Rightarrow> None
            | Some (a, b) \<Rightarrow> Some (c # a, b)))"

text \<open>\<^verbatim>\<open>s.replace(sub, "")\<close>: every occurrence of \<open>sub\<close>, left to right, is removed.\<close>

fun str_remove :: "string \<Rightarrow> string \<Rightarrow> string" where
  "str_remove sub [] = []"
| "str_remove sub (c # cs) =
     (if sub \<noteq> [] \<and> startswith (c # cs) sub
      then str_remove sub (drop (length sub - 1) cs)
      else c # str_remove sub cs)"

subsection \<open>Lookup by name\<close>

text \<open>
  The five library listings of the client, as the values the list
  \<^verbatim>\<open>library_functions\<close> holds; \<open>function_name\<close> is the method's
  \<^verbatim>\<open>__name__\<close>.
\<close>

datatype library_function =
  library_playlists | library_radios | library_albums | library_tracks | library_artists

fun function_name :: "library_function \<Rightarrow> string" where
  "function_name library_playlists = ''get_library_playlists''"
| "function_name library_radios = ''get_library_radios''"
| "function_name library_albums = ''get_library_albums''"
| "function_name library_tracks = ''get_library_tracks''"
| "function_name library_artists = ''get_library_artists''"

fun call_library :: "MusicAssistantClient \<Rightarrow> library_function \<Rightarrow> string \<Rightarrow> MediaItem list" where
  "call_library m library_playlists s = get_library_playlists m s"
| "call_library m library_radios s = get_library_radios m s"
| "call_library m library_albums s = get_library_albums m s"
| "call_library m library_tracks s = get_library_tracks m s"
| "call_library m library_artists s = get_library_artists m s"

text \<open>
  Lines 453 to 458: the first of the keywords that occurs, followed by a space, in the
  search string becomes the media type and is removed from the string.
\<close>

fun scan_media_type :: "string list \<Rightarrow> string \<Rightarrow> string option \<times> string" where
  "scan_media_type [] searchname = (None, searchname)"
| "scan_media_type (media_type_str # rest) searchname =
     (let media_type_subst_str = media_type_str @ '' '' in
      if str_in media_type_subst_str searchname
      then (Some media_type_str, str_remove media_type_subst_str searchname)
      else scan_media_type rest searchname)"

text \<open>Lines 472 to 477: the test an item passes in the artist and title lookup.\<close>

definition artist_title_match :: "string \<Rightarrow> string \<Rightarrow> MediaItem \<Rightarrow> bool" where
  "artist_title_match artistname title item =
     (if str_lower (name item) \<noteq> title then False
      else list_ex (\<lambda>artist. str_lower (artist_name artist) = artistname) (artists item))"

text \<open>Lines 468 to 477: the loop over the splitters, for one library listing.\<close>

fun lookup_split ::
  "(string \<Rightarrow> MediaItem list) \<Rightarrow> string list \<Rightarrow> string \<Rightarrow> MediaItem option" where
  "lookup_split func [] searchname = None"
| "lookup_split func (splitter # rest) searchname =
     (if str_in splitter searchname then
        (case split_once splitter searchname of
           None \<Rightarrow> None
         | Some (artistname, title) \<Rightarrow>
             (case find (artist_title_match artistname title) (func title) of
                Some item \<Rightarrow> Some item
              | None \<Rightarrow> lookup_split func rest searchname))
      else lookup_split func rest searchname)"

text \<open>Lines 461 to 477: the loop over the library listings.\<close>

fun lookup_library ::
  "MusicAssistantClient \<Rightarrow> library_function list \<Rightarrow> string \<Rightarrow> MediaItem option" where
  "lookup_library m [] searchname = None"
| "lookup_library m (func # rest) searchname =
     (case find (\<lambda>item. searchname = str_lower (name item)) (call_library m func searchname) of
        Some item \<Rightarrow> Some item
      | None \<Rightarrow>
          (case (if func = library_tracks \<or> func = library_albums
                 then lookup_split (call_library m func) ['' - '', '' by ''] searchname
                 else None) of
             Some item \<Rightarrow> Some item
           | None \<Rightarrow> lookup_library m rest searchname))"

text \<open>Lines 482 to 492: the first item of the search result, in the fixed order.\<close>

definition first_search_hit :: "SearchResults \<Rightarrow> MediaItem option" where
  "first_search_hit result =
     (case concat [tracks result, albums result, playlists result, search_artists result,
                   radio result] of
        [] \<Rightarrow> None
      | item # rest \<Rightarrow> Some item)"

text \<open>\<^verbatim>\<open>_get_item_by_name\<close>; \<open>mtype\<close> is the argument \<^verbatim>\<open>media_type\<close>.\<close>

definition get_item_by_name :: "MassPlayer \<Rightarrow> string \<Rightarrow> string option \<Rightarrow> MediaItem option" where
  "get_item_by_name self nm mtype =
     (let searchname = str_lower nm;
          library_functions =
            filter (\<lambda>x. if truthy mtype
                        then str_in (str_lower (the mtype)) (function_name x)
                        else True)
              [library_playlists, library_radios, library_albums, library_tracks,
               library_artists];
          scanned =
            (if truthy mtype then (mtype, searchname)
             else (case scan_media_type [''artist'', ''album'', ''track'', ''playlist''] searchname of
                     (None, s) \<Rightarrow> (mtype, s)
                   | (Some t, s) \<Rightarrow> (Some t, s)));
          mtype = fst scanned;
          searchname = snd scanned
      in (case lookup_library (mass self) library_functions searchname of
            Some item \<Rightarrow> Some item
          | None \<Rightarrow>
              first_search_hit
                (search (mass self) searchname
                   (if truthy mtype then MediaTypes [the mtype] else MediaType_ALL))))"

subsection \<open>The play-media handler\<close>

text \<open>
  Lines 393 to 406: the body of the loop over the identifiers, taking the list
  \<^verbatim>\<open>media_uris\<close> to its next value.  \<^verbatim>\<open>suppress(MediaNotFoundError)\<close> turns a
  failed lookup by id into a fall-through to the lookup by name.
\<close>

definition resolve_media_id ::
  "MassPlayer \<Rightarrow> string option \<Rightarrow> string list \<Rightarrow> string \<Rightarrow> string list" where
  "resolve_media_id self mtype media_uris media_id_str =
     (if str_in ''://'' media_id_str then media_uris @ [media_id_str]
      else
        (case (if truthy mtype \<and> isnumeric media_id_str
               then get_item (mass self) (the mtype) media_id_str ''library''
               else None) of
           Some item \<Rightarrow> media_uris @ [uri item]
         | None \<Rightarrow>
             (case get_item_by_name self media_id_str mtype of
                Some item \<Rightarrow> media_uris @ [uri item]
              | None \<Rightarrow> media_uris)))"

definition resolve_media_uris :: "MassPlayer \<Rightarrow> string list \<Rightarrow> string option \<Rightarrow> string list" where
  "resolve_media_uris self media_id mtype =
     foldl (resolve_media_id self mtype) [] media_id"

text \<open>
  \<^verbatim>\<open>_async_play_media_advanced\<close>: the engine call it awaits, or \<open>None\<close> when it
  returns at line 409 without one.
\<close>

definition async_play_media_advanced ::
  "MassPlayer \<Rightarrow> string list \<Rightarrow> QueueOption option \<Rightarrow> bool option \<Rightarrow> bool option \<Rightarrow>
   string option \<Rightarrow> engine_call option" where
  "async_play_media_advanced self media_id enqueue announce radio_mode mtype =
     (let media_uris = resolve_media_uris self media_id mtype in
      if media_uris = [] then None
      else
        (let target =
               (case active_queue self of
                  Some queue \<Rightarrow> queue_id queue
                | None \<Rightarrow> player_id self)
         in Some (play_media target media_uris enqueue radio_mode)))"

section \<open>Example data\<close>

text \<open>
  A small engine: queue \<open>q1\<close> plays a track, queue \<open>q2\<close> plays a radio station
  that carries a version tag, any other source id is no queue.  The library knows the
  track under the id 42 and lists it for the search string \<open>purple rain\<close>; the
  search finds a song for the string \<open>1999\<close> among the tracks.
\<close>

definition example_artist :: Artist where
  "example_artist = \<lparr> artist_name = ''prince'' \<rparr>"

definition example_track :: MediaItem where
  "example_track =
     \<lparr> name = ''purple rain'', uri = ''library://track/7'', media_type = ''track'',
       version = Some ''remastered'', artists = [example_artist],
       album = Some \<lparr> album_name = ''purple rain'', album_artist = Some example_artist \<rparr> \<rparr>"

definition example_radio :: MediaItem where
  "example_radio =
     \<lparr> name = ''jazz fm'', uri = ''library://radio/3'', media_type = ''radio'',
       version = Some ''hd'', artists = [], album = None \<rparr>"

definition example_song :: MediaItem where
  "example_song =
     \<lparr> name = ''1999'', uri = ''spotify://track/1999'', media_type = ''track'',
       version = None, artists = [example_artist], album = None \<rparr>"

definition example_queue :: "string \<Rightarrow> MediaItem \<Rightarrow> PlayerQueue" where
  "example_queue qid item =
     \<lparr> queue_id = qid, shuffle_enabled = False, repeat_mode = RepeatMode_OFF,
       queue_elapsed_time = 100, queue_elapsed_time_last_updated = 1700000000,
       current_item =
         Some \<lparr> queue_item_uri = uri item, media_item = Some item, item_image = None,
                duration = 521 \<rparr>,
       items = [], current_index = Some 0 \<rparr>"

definition example_client :: MusicAssistantClient where
  "example_client =
     \<lparr> get_player_queue =
         (\<lambda>i. if i = ''q1'' then Some (example_queue ''q1'' example_track)
              else if i = ''q2'' then Some (example_queue ''q2'' example_radio)
              else None),
       get_image_url = (\<lambda>img. path img),
       get_item =
         (\<lambda>t i p. if t = ''track'' \<and> i = ''42'' \<and> p = ''library'' then Some example_track
                  else None),
       get_library_playlists = (\<lambda>s. []),
       get_library_radios = (\<lambda>s. []),
       get_library_albums = (\<lambda>s. []),
       get_library_tracks = (\<lambda>s. if s = ''purple rain'' then [example_track] else []),
       get_library_artists = (\<lambda>s. []),
       search =
         (\<lambda>s t. \<lparr> tracks = (if s = ''1999'' \<and> t = MediaTypes [''track'']
                            then [example_song] else []),
                  albums = [], playlists = [], search_artists = [], radio = [] \<rparr>) \<rparr>"

definition example_player :: "string \<Rightarrow> bool \<Rightarrow> Player" where
  "example_player source pw =
     \<lparr> powered = pw, state = PLAYING, active_source = source, volume_level = 40,
       volume_muted = False, elapsed_time = 3, elapsed_time_last_updated = 1700000000,
       current_url = None, group_childs = [] \<rparr>"

text \<open>
  Rounding to the nearest multiple of \<open>2 ^ - 51\<close>, which is how a binary64 product
  between 2 and 4 is rounded, and the binary64 number nearest to 0.03.
\<close>

definition round_to_grid :: "real \<Rightarrow> real" where
  "round_to_grid x = real_of_int \<lfloor>x * 2 ^ 51 + 1 / 2\<rfloor> / 2 ^ 51"

definition example_volume :: real where
  "example_volume = 8646911284551352 / 2 ^ 58"

text \<open>The entity of player \<open>p1\<close>, available, as created, with the given active source.\<close>

definition example_entity :: "string \<Rightarrow> bool \<Rightarrow> MassPlayer" where
  "example_entity source pw =
     MassPlayer_init example_client ''p1'' (example_player source pw) True"

section \<open>Properties of the state projection\<close>

lemmas example_defs = example_entity_def example_player_def example_client_def
  example_queue_def example_radio_def example_track_def example_song_def
  example_artist_def MassPlayer_init_def

lemmas projection_defs = async_on_update_def set_generic_attributes_def
  set_media_position_def set_media_attributes_def current_media_info_def
  update_media_image_url_def STATE_MAPPING_def MediaType_TRACK_def DOMAIN_def
  active_queue_def

lemma map_of_STATE_MAPPING:
  "map_of STATE_MAPPING s =
     Some (case s of IDLE \<Rightarrow> STATE_IDLE | PLAYING \<Rightarrow> STATE_PLAYING | PAUSED \<Rightarrow> STATE_PAUSED)"
  by (cases s) (simp_all add: STATE_MAPPING_def)

text \<open>
  C1.  The claim has every refresh of an available entity set the debounce counter from
  the queue's elapsed time and complete, also when there is no active queue.  With an
  active queue the refresh does so.  Without one the code does otherwise: the refresh
  stops at line 224 with \<^verbatim>\<open>AttributeError\<close>, the debounce counter keeps its former
  value and the media title is not assigned.
\<close>

theorem async_on_update_prev_time:
  "available self \<Longrightarrow>
     (case active_queue self of
        Some queue \<Rightarrow>
          fst (async_on_update rnd self) = None \<and>
          prev_time (snd (async_on_update rnd self)) = queue_elapsed_time queue
      | None \<Rightarrow>
          fst (async_on_update rnd self) = Some AttributeError \<and>
          prev_time (snd (async_on_update rnd self)) = prev_time self \<and>
          attr_media_title (snd (async_on_update rnd self)) = attr_media_title self)"
  by (simp add: async_on_update_def active_queue_def map_of_STATE_MAPPING Let_def
      set_generic_attributes_def set_media_position_def set_media_attributes_def
      update_media_image_url_def split: option.splits prod.splits)

theorem async_on_update_prev_time_witness:
  "fst (async_on_update (\<lambda>x. x) (example_entity ''spotify'' True)) = Some AttributeError \<and>
   prev_time (snd (async_on_update (\<lambda>x. x) (example_entity ''spotify'' True))) = 0 \<and>
   attr_media_title (snd (async_on_update (\<lambda>x. x) (example_entity ''spotify'' True)))
     = None \<and>
   fst (async_on_update (\<lambda>x. x) (example_entity ''q1'' True)) = None \<and>
   prev_time (snd (async_on_update (\<lambda>x. x) (example_entity ''q1'' True))) = 100"
proof -
  have p: "prev_time (example_entity ''spotify'' True) = 0"
    by (simp add: example_defs)
  have t: "attr_media_title (example_entity ''spotify'' True) = None"
    by (simp add: example_defs)
  have e: "queue_elapsed_time (example_queue ''q1'' example_track) = 100"
    by (simp add: example_queue_def)
  have a: "available (example_entity s b)" for s b
    by (simp add: example_defs)
  have q: "active_queue (example_entity ''q1'' True)
      = Some (example_queue ''q1'' example_track)"
    by (simp add: example_defs active_queue_def)
  have n: "active_queue (example_entity ''spotify'' True) = None"
    by (simp add: example_defs active_queue_def)
  show ?thesis
    using async_on_update_prev_time [of "example_entity ''spotify'' True" "\<lambda>x. x"]
      async_on_update_prev_time [of "example_entity ''q1'' True" "\<lambda>x. x"]
    by (simp add: a q n p t e)
qed

text \<open>
  C2, as stated, fails: the radio station of queue \<open>q2\<close> carries the version tag
  \<open>hd\<close>, and the projected title is its bare name.
\<close>

theorem media_title_version_counterexample:
  "version example_radio = Some ''hd'' \<and>
   attr_media_title (snd (async_on_update (\<lambda>x. x) (example_entity ''q2'' True)))
     = Some ''jazz fm'' \<and>
   attr_media_title (snd (async_on_update (\<lambda>x. x) (example_entity ''q2'' True)))
     \<noteq> Some ''jazz fm (hd)''"
  by (simp add: example_defs projection_defs)

text \<open>
  C2, amended.  When the current item of the active queue carries a media item, the
  refresh of an available entity completes, the title is the item's name, with the
  version in parentheses appended when the item is a track and has a non-empty version
  tag, the content id is the queue item's URI and the duration is the queue item's
  duration.
\<close>

theorem media_title_version_on_tracks:
  assumes "available self"
    and "active_queue self = Some queue"
    and "current_item queue = Some ci"
    and "media_item ci = Some mi"
  shows "fst (async_on_update rnd self) = None \<and>
    attr_media_title (snd (async_on_update rnd self)) =
      Some (if media_type mi = ''track'' \<and> truthy (version mi)
            then name mi @ '' ('' @ the (version mi) @ '')'' else name mi) \<and>
    attr_media_content_id (snd (async_on_update rnd self)) = Some (queue_item_uri ci) \<and>
    attr_media_duration (snd (async_on_update rnd self)) = Some (duration ci)"
  using assms
  by (simp add: async_on_update_def active_queue_def map_of_STATE_MAPPING Let_def
      set_media_attributes_def current_media_info_def MediaType_TRACK_def)

theorem media_title_version_on_tracks_witness:
  "attr_media_title (snd (async_on_update (\<lambda>x. x) (example_entity ''q1'' True)))
     = Some ''purple rain (remastered)'' \<and>
   attr_media_content_id (snd (async_on_update (\<lambda>x. x) (example_entity ''q1'' True)))
     = Some ''library://track/7'' \<and>
   attr_media_duration (snd (async_on_update (\<lambda>x. x) (example_entity ''q1'' True)))
     = Some 521"
proof -
  have a: "available (example_entity ''q1'' True)"
    by (simp add: example_defs)
  have q: "active_queue (example_entity ''q1'' True) = Some (example_queue ''q1'' example_track)"
    by (simp add: example_defs active_queue_def)
  have c: "current_item (example_queue ''q1'' example_track) =
      Some \<lparr> queue_item_uri = uri example_track, media_item = Some example_track,
             item_image = None, duration = 521 \<rparr>"
    by (simp add: example_queue_def)
  have m: "media_item \<lparr> queue_item_uri = uri example_track, media_item = Some example_track,
             item_image = None, duration = 521 \<rparr> = Some example_track"
    by simp
  show ?thesis
    using media_title_version_on_tracks [OF a q c m, of "\<lambda>x. x"]
    by (simp add: example_track_def example_artist_def)
qed

lemma float_rounding_int:
  "float_rounding rnd \<Longrightarrow> \<bar>n\<bar> \<le> 2 ^ 53 \<Longrightarrow> rnd (real_of_int n) = real_of_int n"
  by (simp add: float_rounding_def)

lemma float_rounding_nonneg:
  assumes "float_rounding rnd" and "0 \<le> x"
  shows "0 \<le> rnd x"
proof -
  have "rnd (real_of_int 0) = real_of_int 0"
    using assms(1) by (intro float_rounding_int) simp_all
  moreover have "rnd 0 \<le> rnd x"
    using assms by (simp add: float_rounding_def mono_def)
  ultimately show ?thesis by simp
qed

lemma float_rounding_exact: "float_rounding (\<lambda>x. x)"
  by (simp add: float_rounding_def mono_def)

lemma float_rounding_grid: "float_rounding round_to_grid"
proof -
  have m: "mono round_to_grid"
    by (auto simp: mono_def round_to_grid_def divide_right_mono intro!: floor_mono)
  have e: "round_to_grid (real_of_int n) = real_of_int n" for n
  proof -
    have "\<lfloor>real_of_int (n * 2 ^ 51) + 1 / 2\<rfloor> = n * 2 ^ 51"
      by (subst floor_eq_iff) simp
    then show ?thesis by (simp add: round_to_grid_def)
  qed
  show ?thesis using m e by (simp add: float_rounding_def)
qed

text \<open>A rounded number lies between the integers that enclose the exact one.\<close>

lemma float_rounding_between:
  assumes "float_rounding rnd" and "0 \<le> x" and "x \<le> 100"
  shows "\<lfloor>x\<rfloor> \<le> \<lfloor>rnd x\<rfloor> \<and> \<lfloor>rnd x\<rfloor> \<le> \<lceil>x\<rceil>"
proof -
  have m: "mono rnd" using assms(1) by (simp add: float_rounding_def)
  have lo: "0 \<le> \<lfloor>x\<rfloor>" and hi: "\<lceil>x\<rceil> \<le> 100"
    using assms(2,3) by (simp_all add: ceiling_le_iff)
  have "\<lfloor>x\<rfloor> \<le> 100" using assms(3) by (simp add: floor_le_iff)
  then have fl: "rnd (real_of_int \<lfloor>x\<rfloor>) = real_of_int \<lfloor>x\<rfloor>"
    using lo by (intro float_rounding_int [OF assms(1)]) simp
  have "0 \<le> \<lceil>x\<rceil>" using assms(2) by (simp add: ceiling_le_iff le_ceiling_iff)
  then have ce: "rnd (real_of_int \<lceil>x\<rceil>) = real_of_int \<lceil>x\<rceil>"
    using hi by (intro float_rounding_int [OF assms(1)]) simp
  have "rnd (real_of_int \<lfloor>x\<rfloor>) \<le> rnd x"
    using m by (simp add: mono_def)
  then have a: "real_of_int \<lfloor>x\<rfloor> \<le> rnd x" using fl by simp
  have "rnd x \<le> rnd (real_of_int \<lceil>x\<rceil>)"
    using m by (simp add: mono_def)
  then have b: "rnd x \<le> real_of_int \<lceil>x\<rceil>" using ce by simp
  from a have "\<lfloor>x\<rfloor> \<le> \<lfloor>rnd x\<rfloor>" by (simp add: le_floor_iff)
  moreover from b have "\<lfloor>rnd x\<rfloor> \<le> \<lceil>x\<rceil>"
    by (simp add: floor_le_iff)
  ultimately show ?thesis by simp
qed


lemma example_entity_fields:
  "available (example_entity s b)"
  "powered (player (example_entity s b)) = b"
  "state (player (example_entity s b)) = PLAYING"
  "volume_level (player (example_entity s b)) = 40"
  "player_id (example_entity s b) = ''p1''"
  "active_source (player (example_entity s b)) = s"
  by (simp_all add: example_defs)

lemma example_active_queue:
  "active_queue (example_entity ''q1'' b) = Some (example_queue ''q1'' example_track)"
  "active_queue (example_entity ''spotify'' b) = None"
  by (simp_all add: example_defs active_queue_def)

text \<open>
  C6.  After the refresh of an available entity the projected state is OFF when the
  player is not powered, whatever the engine's playback state, and the platform state of
  the same name as the engine's (idle, playing, paused) when it is powered.  The state
  is assigned at lines 204 to 207, before anything that can raise for want of a queue.
\<close>

theorem state_off_when_not_powered:
  "available self \<longrightarrow>
     attr_state (snd (async_on_update rnd self)) =
       Some (if powered (player self)
             then (case state (player self) of
                     IDLE \<Rightarrow> STATE_IDLE | PLAYING \<Rightarrow> STATE_PLAYING | PAUSED \<Rightarrow> STATE_PAUSED)
             else STATE_OFF)"
  by (cases "get_player_queue (mass self) (active_source (player self))")
     (simp_all add: async_on_update_def map_of_STATE_MAPPING Let_def
      set_generic_attributes_def set_media_position_def set_media_attributes_def
      update_media_image_url_def split: option.splits prod.splits)

theorem state_off_when_not_powered_witness:
  "attr_state (snd (async_on_update (\<lambda>x. x) (example_entity ''q1'' False))) = Some STATE_OFF \<and>
   attr_state (snd (async_on_update (\<lambda>x. x) (example_entity ''spotify'' False)))
     = Some STATE_OFF \<and>
   attr_state (snd (async_on_update (\<lambda>x. x) (example_entity ''q1'' True)))
     = Some STATE_PLAYING"
  using state_off_when_not_powered [of "example_entity ''q1'' False" "\<lambda>x. x"]
    state_off_when_not_powered [of "example_entity ''spotify'' False" "\<lambda>x. x"]
    state_off_when_not_powered [of "example_entity ''q1'' True" "\<lambda>x. x"]
  by (simp add: example_entity_fields)

section \<open>Properties of the volume scaling\<close>

text \<open>
  C5, as stated, fails: the engine volume is the floor of the product as the float
  multiplication rounds it, not of the exact product.  For the platform volume 0.03
  (the binary64 number nearest to it) the exact product with 100 lies below 3 and has
  floor 2, the float product is 3, and the volume command carries 3.
\<close>

theorem volume_floor_counterexample:
  "float_rounding round_to_grid \<and> 0 \<le> example_volume \<and> example_volume \<le> 1 \<and>
   async_set_volume_level round_to_grid (example_entity ''q1'' True) example_volume
     = player_command_volume_set ''p1'' 3 \<and>
   \<lfloor>example_volume * 100\<rfloor> = 2"
proof -
  have p: "example_volume * 100 = 27021597764222975 / 9007199254740992"
    by (simp add: example_volume_def)
  have f: "\<lfloor>example_volume * 100\<rfloor> = 2"
    unfolding p by (simp add: floor_eq_iff)
  have r: "round_to_grid (example_volume * 100) = 3"
    unfolding p round_to_grid_def by (simp add: floor_eq_iff)
  have "async_set_volume_level round_to_grid (example_entity ''q1'' True) example_volume
     = player_command_volume_set ''p1'' 3"
    by (simp add: async_set_volume_level_def r py_int_def example_entity_fields)
  moreover have "0 \<le> example_volume \<and> example_volume \<le> 1"
    by (simp add: example_volume_def)
  ultimately show ?thesis using f float_rounding_grid by simp
qed

text \<open>
  C5, amended.  For a platform volume \<open>v\<close> between 0 and 1,
  \<^verbatim>\<open>async_set_volume_level\<close> issues the volume command of the player with the floor of
  the float product \<^verbatim>\<open>v * 100\<close>, which is the floor of the exact product or the
  integer above it; for an engine volume \<open>g\<close> between 0 and 100, the refresh of an
  available entity projects the float quotient \<^verbatim>\<open>g / 100\<close>.
\<close>

theorem volume_round_trip:
  assumes "float_rounding rnd"
  shows "(0 \<le> v \<and> v \<le> 1 \<longrightarrow>
            async_set_volume_level rnd self v
              = player_command_volume_set (player_id self) \<lfloor>rnd (v * 100)\<rfloor> \<and>
            \<lfloor>v * 100\<rfloor> \<le> \<lfloor>rnd (v * 100)\<rfloor> \<and> \<lfloor>rnd (v * 100)\<rfloor> \<le> \<lceil>v * 100\<rceil>) \<and>
         (available self \<and> 0 \<le> volume_level (player self) \<and> volume_level (player self) \<le> 100
            \<longrightarrow> attr_volume_level (snd (async_on_update rnd self))
                  = Some (rnd (real_of_int (volume_level (player self)) / 100)))"
proof -
  have "0 \<le> rnd (v * 100)" if "0 \<le> v"
    using float_rounding_nonneg [OF assms, of "v * 100"] that by simp
  then have "async_set_volume_level rnd self v
      = player_command_volume_set (player_id self) \<lfloor>rnd (v * 100)\<rfloor>" if "0 \<le> v"
    using that by (simp add: async_set_volume_level_def py_int_def)
  moreover have "\<lfloor>v * 100\<rfloor> \<le> \<lfloor>rnd (v * 100)\<rfloor> \<and> \<lfloor>rnd (v * 100)\<rfloor> \<le> \<lceil>v * 100\<rceil>"
    if "0 \<le> v" and "v \<le> 1"
    using float_rounding_between [OF assms, of "v * 100"] that by simp
  moreover have "attr_volume_level (snd (async_on_update rnd self))
      = Some (rnd (real_of_int (volume_level (player self)) / 100))" if "available self"
    using that
    by (cases "get_player_queue (mass self) (active_source (player self))")
       (simp_all add: async_on_update_def map_of_STATE_MAPPING Let_def
        set_generic_attributes_def set_media_position_def set_media_attributes_def
        update_media_image_url_def split: option.splits prod.splits)
  ultimately show ?thesis by simp
qed

theorem volume_round_trip_witness:
  "async_set_volume_level (\<lambda>x. x) (example_entity ''q1'' True) (1 / 2)
     = player_command_volume_set ''p1'' 50 \<and>
   attr_volume_level (snd (async_on_update (\<lambda>x. x) (example_entity ''q1'' True)))
     = Some (2 / 5)"
  using volume_round_trip [OF float_rounding_exact, of "1 / 2" "example_entity ''q1'' True"]
  by (simp add: example_entity_fields)

section \<open>Properties of the event subscription\<close>



section \<open>Properties of the command forwarding\<close>

lemmas command_defs = async_media_play_def async_media_pause_def async_media_stop_def
  async_media_next_track_def async_media_previous_track_def async_media_seek_def
  async_set_shuffle_def async_set_repeat_def async_clear_playlist_def

text \<open>
  C3, as stated, fails: for a player without an active queue, \<^verbatim>\<open>async_media_play\<close>
  issues \<^verbatim>\<open>queue_command_play\<close>, the queue-scoped method, with the player's id; no
  player-scoped method is called.
\<close>

theorem playback_command_scope_counterexample:
  "active_queue (example_entity ''spotify'' True) = None \<and>
   async_media_play (example_entity ''spotify'' True) = queue_command_play ''p1'' \<and>
   is_queue_command (async_media_play (example_entity ''spotify'' True)) \<and>
   \<not> is_player_command (async_media_play (example_entity ''spotify'' True))"
  by (simp add: example_defs active_queue_def async_media_play_def)

text \<open>
  C3, amended.  Each of play, pause, stop, next, previous, seek, shuffle-set, repeat-set
  and clear-playlist issues the \<^verbatim>\<open>queue_command\<close> method of its name whether or not
  the player has an active queue; the target is the active queue's id when there is one
  and the player's own id when there is none.  Seek passes the position truncated to an
  integer; repeat-set issues its call when the string is a repeat mode and raises
  \<^verbatim>\<open>ValueError\<close> without a call when it is not.
\<close>

theorem playback_commands_target:
  "(let target =
          (case active_queue self of Some queue \<Rightarrow> queue_id queue | None \<Rightarrow> player_id self)
    in async_media_play self = queue_command_play target \<and>
       async_media_pause self = queue_command_pause target \<and>
       async_media_stop self = queue_command_stop target \<and>
       async_media_next_track self = queue_command_next target \<and>
       async_media_previous_track self = queue_command_previous target \<and>
       async_media_seek self position = queue_command_seek target (py_int position) \<and>
       async_set_shuffle self shuffle = queue_command_shuffle target shuffle \<and>
       async_set_repeat self repeat =
         (case RepeatMode_of repeat of
            Inl e \<Rightarrow> Inl e
          | Inr m \<Rightarrow> Inr (queue_command_repeat target m)) \<and>
       async_clear_playlist self = queue_command_clear target)"
  by (cases "active_queue self") (simp_all add: command_defs Let_def)

theorem playback_commands_target_witness:
  "async_media_play (example_entity ''q1'' True) = queue_command_play ''q1'' \<and>
   async_media_play (example_entity ''spotify'' True) = queue_command_play ''p1'' \<and>
   async_clear_playlist (example_entity ''q1'' True) = queue_command_clear ''q1'' \<and>
   async_clear_playlist (example_entity ''spotify'' True) = queue_command_clear ''p1'' \<and>
   async_media_seek (example_entity ''q1'' True) (7 / 2) = queue_command_seek ''q1'' 3 \<and>
   async_set_repeat (example_entity ''q1'' True) ''all''
     = Inr (queue_command_repeat ''q1'' RepeatMode_ALL) \<and>
   async_set_repeat (example_entity ''q1'' True) ''sometimes'' = Inl ValueError"
proof -
  have i: "queue_id (example_queue ''q1'' example_track) = ''q1''"
    by (simp add: example_queue_def)
  have f: "py_int (7 / 2) = 3"
    by (simp add: py_int_def)
  show ?thesis
    using playback_commands_target [of "example_entity ''q1'' True" "7 / 2" True "''all''"]
      playback_commands_target [of "example_entity ''q1'' True" "7 / 2" True "''sometimes''"]
      playback_commands_target [of "example_entity ''spotify'' True" 0 True "''all''"]
    by (simp add: example_active_queue example_entity_fields i f Let_def RepeatMode_of_def)
qed

section \<open>Properties of the media resolution\<close>

subsection \<open>The string operations\<close>

lemma startswith_iff: "startswith s p \<longleftrightarrow> (\<exists>q. s = p @ q)"
  by (induction s p rule: startswith.induct) auto

lemma str_in_iff: "str_in sub s \<longleftrightarrow> (\<exists>p q. s = p @ sub @ q)"
proof (induction s)
  case Nil
  then show ?case by auto
next
  case (Cons c cs)
  show ?case
  proof
    assume "str_in sub (c # cs)"
    then consider "startswith (c # cs) sub" | "str_in sub cs" by auto
    then show "\<exists>p q. c # cs = p @ sub @ q"
    proof cases
      case 1
      then obtain q where "c # cs = sub @ q" by (auto simp: startswith_iff)
      then have "c # cs = [] @ sub @ q" by simp
      then show ?thesis by blast
    next
      case 2
      then obtain p q where "cs = p @ sub @ q" using Cons.IH by auto
      then have "c # cs = (c # p) @ sub @ q" by simp
      then show ?thesis by blast
    qed
  next
    assume "\<exists>p q. c # cs = p @ sub @ q"
    then obtain p q where pq: "c # cs = p @ sub @ q" by auto
    show "str_in sub (c # cs)"
    proof (cases p)
      case Nil
      then have "startswith (c # cs) sub" using pq by (auto simp: startswith_iff)
      then show ?thesis by simp
    next
      case (Cons a p')
      then have "cs = p' @ sub @ q" using pq by simp
      then have "str_in sub cs" using Cons.IH by blast
      then show ?thesis by simp
    qed
  qed
qed

lemma split_once_Some:
  "split_once sep s = Some (a, b) \<Longrightarrow> s = a @ sep @ b"
proof (induction s arbitrary: a b)
  case Nil
  then show ?case by (auto split: if_splits)
next
  case (Cons c cs)
  show ?case
  proof (cases "startswith (c # cs) sep")
    case True
    then obtain q where q: "c # cs = sep @ q" by (auto simp: startswith_iff)
    have "a = [] \<and> b = drop (length sep) (c # cs)"
      using True Cons.prems by simp
    then show ?thesis by (simp add: q)
  next
    case False
    with Cons.prems obtain a' where "split_once sep cs = Some (a', b)" and "a = c # a'"
      by (auto split: option.splits)
    with Cons.IH show ?thesis by simp
  qed
qed

text \<open>The unpacking at line 470 cannot fail: it is guarded by the test of line 469.\<close>

lemma split_once_found: "str_in sep s \<Longrightarrow> split_once sep s \<noteq> None"
  by (induction s) (auto split: option.splits)

subsection \<open>The loop over the identifiers\<close>

lemmas resolver_defs = resolve_media_id_def get_item_by_name_def str_lower_def
  char_lower_def artist_title_match_def first_search_hit_def isnumeric_def

lemma resolve_media_id_append:
  "resolve_media_id self mt uris i = uris @ resolve_media_id self mt [] i"
  by (simp add: resolve_media_id_def split: option.splits)

lemma foldl_resolve_media_id:
  "foldl (resolve_media_id self mt) acc ids
     = acc @ concat (map (resolve_media_id self mt []) ids)"
proof (induction ids arbitrary: acc)
  case Nil
  then show ?case by simp
next
  case (Cons i ids)
  have "foldl (resolve_media_id self mt) acc (i # ids)
      = foldl (resolve_media_id self mt) (resolve_media_id self mt acc i) ids"
    by simp
  also have "\<dots> = resolve_media_id self mt acc i
      @ concat (map (resolve_media_id self mt []) ids)"
    by (rule Cons.IH)
  also have "resolve_media_id self mt acc i = acc @ resolve_media_id self mt [] i"
    by (rule resolve_media_id_append)
  finally show ?case by simp
qed

text \<open>
  C7.  The list of URIs of a play-media request is the concatenation of what each
  identifier resolves to by itself, which is nothing for an identifier that is no URI,
  is not found by id and is not found by name; such an identifier changes nothing in the
  list, and the handler returns without an engine call exactly when every identifier
  resolves to nothing.  The handler has no path that raises: the only exception of the
  lookups, \<^verbatim>\<open>MediaNotFoundError\<close>, is suppressed.
\<close>

theorem unresolved_identifiers_dropped:
  "resolve_media_uris self media_id mt
     = concat (map (resolve_media_id self mt []) media_id) \<and>
   (resolve_media_id self mt [] i = []) =
     (\<not> str_in ''://'' i \<and>
      (if truthy mt \<and> isnumeric i then get_item (mass self) (the mt) i ''library''
       else None) = None \<and>
      get_item_by_name self i mt = None) \<and>
   (resolve_media_id self mt [] i = [] \<longrightarrow>
      resolve_media_uris self (xs @ i # ys) mt = resolve_media_uris self (xs @ ys) mt) \<and>
   (async_play_media_advanced self media_id enqueue announce radio_mode mt = None)
     = (\<forall>i \<in> set media_id. resolve_media_id self mt [] i = [])"
proof -
  have a: "resolve_media_uris self ids mt = concat (map (resolve_media_id self mt []) ids)"
    for ids
    using foldl_resolve_media_id [of self mt "[]" ids] by (simp add: resolve_media_uris_def)
  have b: "(resolve_media_id self mt [] i = []) =
     (\<not> str_in ''://'' i \<and>
      (if truthy mt \<and> isnumeric i then get_item (mass self) (the mt) i ''library''
       else None) = None \<and>
      get_item_by_name self i mt = None)"
    by (simp add: resolve_media_id_def split: option.splits)
  have c: "(async_play_media_advanced self media_id enqueue announce radio_mode mt = None)
     = (\<forall>i \<in> set media_id. resolve_media_id self mt [] i = [])"
    by (simp add: async_play_media_advanced_def a Let_def)
  show ?thesis using a b c by simp
qed

theorem unresolved_identifiers_dropped_witness:
  "async_play_media_advanced (example_entity ''q1'' True) [''nothing'', ''nobody - nothing'']
     (Some PLAY) None None None = None \<and>
   async_play_media_advanced (example_entity ''q1'' True) [''nothing'', ''abc://track/1'']
     (Some PLAY) None None None
     = Some (play_media ''q1'' [''abc://track/1''] (Some PLAY) None)"
proof -
  let ?e = "example_entity ''q1'' True"
  have n1: "resolve_media_id ?e None [] ''nothing'' = []"
    by (simp add: example_defs resolver_defs)
  have n2: "resolve_media_id ?e None [] ''nobody - nothing'' = []"
    by (simp add: example_defs resolver_defs)
  have u: "resolve_media_id ?e None [] ''abc://track/1'' = [''abc://track/1'']"
    by (simp add: resolve_media_id_def)
  have i: "queue_id (example_queue ''q1'' example_track) = ''q1''"
    by (simp add: example_queue_def)
  have "async_play_media_advanced ?e [''nothing'', ''nobody - nothing''] (Some PLAY) None
      None None = None"
    using unresolved_identifiers_dropped [of ?e "[''nothing'', ''nobody - nothing'']" None
        "''nothing''" "[]" "[]" "Some PLAY" None None]
    by (simp add: n1 n2)
  moreover have "resolve_media_uris ?e [''nothing'', ''abc://track/1''] None
      = [''abc://track/1'']"
    using unresolved_identifiers_dropped [of ?e "[''nothing'', ''abc://track/1'']" None
        "''nothing''" "[]" "[]" "Some PLAY" None None]
    by (simp add: n1 u)
  ultimately show ?thesis
    by (simp add: async_play_media_advanced_def example_active_queue i)
qed

text \<open>
  C8.  An identifier that contains \<open>://\<close> is taken as it is.  Otherwise, when a media
  type is given and the identifier is numeric, the library is asked for the item of that
  id and type: when it has one, that item's URI is the result, whatever the lookup by
  name and the search would find; when it has none, the result is that of the lookup by
  name.
\<close>

theorem resolution_order:
  "(str_in ''://'' i \<longrightarrow> resolve_media_id self mt uris i = uris @ [i]) \<and>
   (\<not> str_in ''://'' i \<and> truthy mt \<and> isnumeric i \<longrightarrow>
      (case get_item (mass self) (the mt) i ''library'' of
         Some item \<Rightarrow> resolve_media_id self mt uris i = uris @ [uri item]
       | None \<Rightarrow>
           resolve_media_id self mt uris i =
             (case get_item_by_name self i mt of
                Some item \<Rightarrow> uris @ [uri item]
              | None \<Rightarrow> uris)))"
  by (simp add: resolve_media_id_def split: option.splits)

theorem resolution_order_witness:
  "resolve_media_id (example_entity ''q1'' True) None [] ''abc://track/1''
     = [''abc://track/1''] \<and>
   resolve_media_id (example_entity ''q1'' True) (Some ''track'') [] ''42''
     = [''library://track/7''] \<and>
   get_item (mass (example_entity ''q1'' True)) ''track'' ''1999'' ''library'' = None \<and>
   resolve_media_id (example_entity ''q1'' True) (Some ''track'') [] ''1999''
     = [''spotify://track/1999'']"
proof -
  let ?e = "example_entity ''q1'' True"
  have s1: "str_in ''://'' ''abc://track/1''"
    by simp
  have s2: "\<not> str_in ''://'' ''42'' \<and> truthy (Some ''track'') \<and> isnumeric ''42''"
    by (simp add: isnumeric_def)
  have s3: "\<not> str_in ''://'' ''1999'' \<and> truthy (Some ''track'') \<and> isnumeric ''1999''"
    by (simp add: isnumeric_def)
  have g2: "get_item (mass ?e) ''track'' ''42'' ''library'' = Some example_track"
    by (simp add: example_defs)
  have g3: "get_item (mass ?e) ''track'' ''1999'' ''library'' = None"
    by (simp add: example_defs)
  have n3: "get_item_by_name ?e ''1999'' (Some ''track'') = Some example_song"
    by (simp add: example_defs resolver_defs Let_def)
  show ?thesis
    using resolution_order [of "''abc://track/1''" ?e None "[]"]
      resolution_order [of "''42''" ?e "Some ''track''" "[]"]
      resolution_order [of "''1999''" ?e "Some ''track''" "[]"] s1 s2 s3
    by (simp add: g2 g3 n3 example_track_def example_song_def)
qed

text \<open>
  C10.  The argument \<^verbatim>\<open>announce\<close> has no effect: two calls of the handler that
  differ in it alone issue the same engine call, with the same target, media, enqueue
  option and radio mode, or both issue none.  The list of URIs does not take the
  argument at all.
\<close>

theorem announce_has_no_effect:
  "async_play_media_advanced self media_id enqueue announce radio_mode mt
     = async_play_media_advanced self media_id enqueue announce' radio_mode mt"
  by (simp add: async_play_media_advanced_def)

theorem announce_has_no_effect_witness:
  "async_play_media_advanced (example_entity ''q1'' True) [''abc://track/1''] (Some PLAY)
     (Some True) None None
     = Some (play_media ''q1'' [''abc://track/1''] (Some PLAY) None) \<and>
   async_play_media_advanced (example_entity ''q1'' True) [''abc://track/1''] (Some PLAY)
     (Some False) None None
     = Some (play_media ''q1'' [''abc://track/1''] (Some PLAY) None)"
proof -
  let ?e = "example_entity ''q1'' True"
  have i: "queue_id (example_queue ''q1'' example_track) = ''q1''"
    by (simp add: example_queue_def)
  have "async_play_media_advanced ?e [''abc://track/1''] (Some PLAY) None None None
      = Some (play_media ''q1'' [''abc://track/1''] (Some PLAY) None)"
    by (simp add: async_play_media_advanced_def resolve_media_uris_def resolve_media_id_def
        example_active_queue i)
  then show ?thesis
    using announce_has_no_effect [of ?e "[''abc://track/1'']" "Some PLAY" "Some True" None
        None None]
      announce_has_no_effect [of ?e "[''abc://track/1'']" "Some PLAY" "Some False" None
        None None]
    by simp
qed

subsection \<open>The lookup by artist and title\<close>

lemma lookup_split_sound:
  "lookup_split func splitters s = Some item \<Longrightarrow>
   \<exists>splitter \<in> set splitters. \<exists>artistname title.
     str_in splitter s \<and> split_once splitter s = Some (artistname, title) \<and>
     item \<in> set (func title) \<and> str_lower (name item) = title \<and>
     (\<exists>a \<in> set (artists item). str_lower (artist_name a) = artistname)"
proof (induction splitters)
  case Nil
  then show ?case by simp
next
  case (Cons splitter rest)
  show ?case
  proof (cases "lookup_split func rest s = Some item")
    case True
    with Cons.IH show ?thesis by auto
  next
    case False
    with Cons.prems obtain artistname title where
      c: "str_in splitter s" and sp: "split_once splitter s = Some (artistname, title)"
      and f: "find (artist_title_match artistname title) (func title) = Some item"
      by (auto split: if_splits option.splits)
    from f have "item \<in> set (func title)" and "artist_title_match artistname title item"
      by (auto simp: find_Some_iff)
    then have "item \<in> set (func title) \<and> str_lower (name item) = title \<and>
        (\<exists>a \<in> set (artists item). str_lower (artist_name a) = artistname)"
      by (auto simp: artist_title_match_def list_ex_iff split: if_splits)
    with c sp show ?thesis by auto
  qed
qed

lemma lookup_library_sound:
  "lookup_library m funcs s = Some item \<Longrightarrow>
   \<exists>func \<in> set funcs.
     (item \<in> set (call_library m func s) \<and> s = str_lower (name item)) \<or>
     ((func = library_tracks \<or> func = library_albums) \<and>
      (\<exists>splitter \<in> {'' - '', '' by ''}. \<exists>artistname title.
        str_in splitter s \<and> split_once splitter s = Some (artistname, title) \<and>
        s = artistname @ splitter @ title \<and>
        item \<in> set (call_library m func title) \<and> str_lower (name item) = title \<and>
        (\<exists>a \<in> set (artists item). str_lower (artist_name a) = artistname)))"
proof (induction funcs)
  case Nil
  then show ?case by simp
next
  case (Cons func rest)
  consider
    (exact) "find (\<lambda>item. s = str_lower (name item)) (call_library m func s) = Some item"
  | (split) "func = library_tracks \<or> func = library_albums"
      "lookup_split (call_library m func) ['' - '', '' by ''] s = Some item"
  | (rest) "lookup_library m rest s = Some item"
    using Cons.prems by (auto split: option.splits if_splits)
  then show ?case
  proof cases
    case exact
    then have "item \<in> set (call_library m func s) \<and> s = str_lower (name item)"
      by (auto simp: find_Some_iff)
    then show ?thesis by auto
  next
    case split
    from lookup_split_sound [OF split(2)] obtain splitter artistname title where
      "splitter \<in> {'' - '', '' by ''}" "str_in splitter s"
      "split_once splitter s = Some (artistname, title)"
      "item \<in> set (call_library m func title)" "str_lower (name item) = title"
      "\<exists>a \<in> set (artists item). str_lower (artist_name a) = artistname"
      by auto
    moreover from this have "s = artistname @ splitter @ title"
      by (auto dest: split_once_Some)
    ultimately show ?thesis using split(1) by (intro bexI [of _ func]) auto
  next
    case rest
    with Cons.IH show ?thesis by auto
  qed
qed

text \<open>
  C9.  An item that the library lookup returns for the lower-cased search string
  \<open>s\<close> either has \<open>s\<close> as its lower-cased name, or comes from the track or album
  listing by the split: \<open>s\<close> contains \<open> - \<close> or \<open> by \<close>, is cut at the first
  occurrence into an artist part and a title, the listing was queried with the title,
  the item's lower-cased name is the title and the lower-cased name of one of its
  artists is the artist part.  Conversely, for the track or album listing, when no
  listed item has the name \<open>s\<close> and the split at the first applicable separator has a
  match, the first match is returned.  The search string \<open>prince - purple rain\<close>
  without a type hint resolves in this way to the track named \<open>purple rain\<close> of the
  artist \<open>prince\<close>.
\<close>

theorem artist_title_lookup:
  "(lookup_library m funcs s = Some item \<longrightarrow>
     (\<exists>func \<in> set funcs.
       (item \<in> set (call_library m func s) \<and> s = str_lower (name item)) \<or>
       ((func = library_tracks \<or> func = library_albums) \<and>
        (\<exists>splitter \<in> {'' - '', '' by ''}. \<exists>artistname title.
          str_in splitter s \<and> split_once splitter s = Some (artistname, title) \<and>
          s = artistname @ splitter @ title \<and>
          item \<in> set (call_library m func title) \<and> str_lower (name item) = title \<and>
          (\<exists>a \<in> set (artists item). str_lower (artist_name a) = artistname))))) \<and>
   ((func = library_tracks \<or> func = library_albums) \<and>
    find (\<lambda>item. s = str_lower (name item)) (call_library m func s) = None \<and>
    splitter \<in> {'' - '', '' by ''} \<and> str_in splitter s \<and>
    (splitter = '' by '' \<longrightarrow> \<not> str_in '' - '' s) \<and>
    split_once splitter s = Some (artistname, title) \<and>
    find (artist_title_match artistname title) (call_library m func title) = Some item'
    \<longrightarrow> lookup_library m (func # rest) s = Some item')"
  using lookup_library_sound [of m funcs s item] by auto

theorem artist_title_lookup_witness:
  "get_item_by_name (example_entity ''q1'' True) ''prince - purple rain'' None
     = Some example_track \<and>
   name example_track = ''purple rain'' \<and>
   map artist_name (artists example_track) = [''prince''] \<and>
   split_once '' - '' ''prince - purple rain'' = Some (''prince'', ''purple rain'') \<and>
   find (\<lambda>item. ''prince - purple rain'' = str_lower (name item))
     (call_library example_client library_tracks ''prince - purple rain'') = None \<and>
   lookup_library example_client [library_tracks] ''prince - purple rain''
     = Some example_track"
proof -
  have sp: "split_once '' - '' ''prince - purple rain'' = Some (''prince'', ''purple rain'')"
    by simp
  have ex: "find (\<lambda>item. ''prince - purple rain'' = str_lower (name item))
     (call_library example_client library_tracks ''prince - purple rain'') = None"
    by (simp add: example_client_def)
  have f: "find (artist_title_match ''prince'' ''purple rain'')
      (call_library example_client library_tracks ''purple rain'') = Some example_track"
    by (simp add: example_defs resolver_defs)
  have l: "lookup_library example_client [library_tracks] ''prince - purple rain''
      = Some example_track"
    using artist_title_lookup [of example_client "[]" "''prince - purple rain''"
        example_track library_tracks "'' - ''" "''prince''" "''purple rain''" example_track
        "[]"] sp ex f
    by simp
  have g: "get_item_by_name (example_entity ''q1'' True) ''prince - purple rain'' None
      = Some example_track"
    by (simp add: example_defs resolver_defs Let_def)
  show ?thesis
    using sp ex l g by (simp add: example_track_def example_artist_def)
qed

end
